theory Spec2Isabelle
  imports Main
begin

section \<open>Text\<close>

text \<open>
  Text is modelled as \<^typ>\<open>string\<close>, a list of 8-bit characters holding the UTF-8 bytes of
  the JavaScript string. Whole-string equality is exact under this reading. The operations
  that look inside a string (\<open>trim\<close>, \<open>slice\<close>, \<open>toLowerCase\<close>, the regular
  expressions) are exact on ASCII text, which is what phone numbers, clock times, weekday
  names and status names are.
\<close>

definition isWhiteSpace :: "char \<Rightarrow> bool" where
  "isWhiteSpace c \<longleftrightarrow> c \<in> set [CHR 0x09, CHR 0x0A, CHR 0x0B, CHR 0x0C, CHR 0x0D, CHR 0x20]"



definition lowerChar :: "char \<Rightarrow> char" where
  "lowerChar c =
     (let n = (of_char c :: nat) in if 65 \<le> n \<and> n \<le> 90 then char_of (n + 32) else c)"

definition toLowerCase :: "string \<Rightarrow> string" where
  "toLowerCase s = map lowerChar s"

definition trim :: "string \<Rightarrow> string" where
  "trim s = rev (dropWhile isWhiteSpace (rev (dropWhile isWhiteSpace s)))"


fun str_lt :: "string \<Rightarrow> string \<Rightarrow> bool" where
  \<comment> \<open>JavaScript's \<open><\<close> on strings: code unit by code unit, a proper prefix is smaller\<close>
  "str_lt [] [] = False"
| "str_lt [] (y # ys) = True"
| "str_lt (x # xs) [] = False"
| "str_lt (x # xs) (y # ys) =
     ((of_char x :: nat) < of_char y \<or> (x = y \<and> str_lt xs ys))"

definition str_le :: "string \<Rightarrow> string \<Rightarrow> bool" where
  \<comment> \<open>\<open>a <= b\<close> is \<open>!(b < a)\<close>\<close>
  "str_le a b \<longleftrightarrow> \<not> str_lt b a"

definition str_ge :: "string \<Rightarrow> string \<Rightarrow> bool" where
  \<comment> \<open>\<open>a >= b\<close> is \<open>!(a < b)\<close>\<close>
  "str_ge a b \<longleftrightarrow> \<not> str_lt a b"

fun findIndex :: "('a \<Rightarrow> bool) \<Rightarrow> 'a list \<Rightarrow> nat option" where
  \<comment> \<open>\<open>Array.prototype.findIndex\<close>; \<open>None\<close> stands for \<open>-1\<close>\<close>
  "findIndex P [] = None"
| "findIndex P (x # xs) = (if P x then Some 0 else map_option Suc (findIndex P xs))"

subsection \<open>parseInt\<close>




section \<open>Data model\<close>

text \<open>
  A \<open>Date\<close> is its time value in milliseconds, or invalid (time value \<open>NaN\<close>).
\<close>

datatype date = Date int | InvalidDate


datatype customer_status = Active | Blocked | Archived

record customer_metadata =
  profileName :: "string option"
  language :: "string option"
  timezone_c :: "string option"
  tags :: "string list option"

record customer =
  id_c :: string
  phoneNumber :: string
  name :: string
  isNew :: bool
  status_c :: customer_status
  lastMessageAt :: date
  firstMessageAt :: date
  messageCount :: int
  metadata_c :: customer_metadata
  createdAt_c :: date
  updatedAt_c :: date





datatype direction = Incoming | Outgoing

datatype message_status = Sent | Delivered | Read | Failed | Pending

record message_metadata =
  whatsappTimestamp :: "string option"
  context_m :: "(string \<times> string) option"
  failureReason :: "string option"

text \<open>\<open>Omit<Message, 'id' | 'createdAt' | 'updatedAt'>\<close>, the argument of \<open>MessageDatabase.create\<close>.\<close>

record message_data =
  d_customerId :: string
  d_messageId :: string
  d_direction :: direction
  d_type :: string
  d_content :: string
  d_status_m :: message_status
  d_isAutoReply :: bool
  d_timestamp :: date
  d_metadata_m :: message_metadata

record message =
  id_m :: string
  customerId :: string
  messageId :: string
  direction :: direction
  type_m :: string
  content :: string
  status_m :: message_status
  isAutoReply :: bool
  timestamp :: date
  metadata_m :: message_metadata
  createdAt_m :: date
  updatedAt_m :: date

record day_schedule =
  start_d :: string
  end_d :: string
  enabled_d :: bool

record business_hours =
  enabled :: bool
  timezone :: string
  schedule :: "string \<rightharpoonup> day_schedule"

record auto_reply =
  newCustomerMessage :: string
  returningCustomerMessage :: string
  afterHoursMessage :: string
  fallbackMessage :: string

record BotSettings =
  id_s :: string
  isActive :: bool
  businessHours :: business_hours
  autoReply :: auto_reply
  webhookUrl :: string
  verifyToken :: string
  accessToken :: string
  phoneNumberId :: string
  createdAt_s :: date
  updatedAt_s :: date



record SendMessageResponse =
  contacts_r :: "(string \<times> string) list"
  messages_r :: "string list"

text \<open>The credentials held by a \<open>WhatsAppAPI\<close> object.\<close>

record WhatsAppAPI =
  api_accessToken :: string
  api_phoneNumberId :: string

section \<open>State and environment\<close>

text \<open>
  The module-level arrays of \<open>database.ts\<close> and the \<open>whatsappApi\<close> field of the one
  \<open>MessageProcessor\<close> the routes share. The arrays \<open>conversations\<close> and
  \<open>messageTemplates\<close> are not touched by the message processor and are left out.
\<close>

record state =
  customers :: "customer list"
  messages :: "message list"
  botSettings :: "BotSettings option"
  whatsappApi :: WhatsAppAPI

text \<open>
  What one call reads from outside the program: the clock (\<open>new Date()\<close>; the reads of one
  call are one instant), the identifiers \<open>generateId()\<close> draws for the records the call
  creates, the weekday name and the \<open>HH:MM\<close> time that \<open>toLocaleDateString\<close> and
  \<open>toLocaleTimeString\<close> give for a time zone (\<open>None\<close> when they throw, as they do for
  a time zone they cannot resolve), and the outcome of the two HTTP requests (\<open>None\<close> and
  \<open>False\<close> for a response that is not ok or a request that throws).
\<close>

record env =
  now :: int
  customerNewId :: string
  incomingNewId :: string
  outgoingNewId :: string
  localeWeekday :: "string \<Rightarrow> string option"
  localeTime :: "string \<Rightarrow> string option"
  sendOutcome :: "SendMessageResponse option"
  readOutcome :: bool

section \<open>database.ts\<close>





definition MessageDatabase_create :: "message_data \<Rightarrow> string \<Rightarrow> int \<Rightarrow> state \<Rightarrow> message \<times> state" where
  "MessageDatabase_create d newId t s =
     (let m = \<lparr>id_m = newId, customerId = d_customerId d, messageId = d_messageId d,
                direction = d_direction d, type_m = d_type d, content = d_content d,
                status_m = d_status_m d, isAutoReply = d_isAutoReply d, timestamp = d_timestamp d,
                metadata_m = d_metadata_m d, createdAt_m = Date t, updatedAt_m = Date t\<rparr>
      in (m, s\<lparr>messages := messages s @ [m]\<rparr>))"

definition updateStatus :: "string \<Rightarrow> message_status \<Rightarrow> int \<Rightarrow> state \<Rightarrow> message option \<times> state" where
  "updateStatus mid st t s =
     (case findIndex (\<lambda>m. messageId m = mid) (messages s) of
        None \<Rightarrow> (None, s)
      | Some k \<Rightarrow>
          (let m = (messages s ! k)\<lparr>status_m := st, updatedAt_m := Date t\<rparr>
           in (Some m, s\<lparr>messages := (messages s)[k := m]\<rparr>)))"

definition defaultSettings :: "int \<Rightarrow> BotSettings" where
  "defaultSettings t =
     \<lparr>id_s = ''default'',
      isActive = True,
      businessHours = \<lparr>enabled = False, timezone = ''America/New_York'',
        schedule = [''monday'' \<mapsto> \<lparr>start_d = ''09:00'', end_d = ''17:00'', enabled_d = True\<rparr>,
                    ''tuesday'' \<mapsto> \<lparr>start_d = ''09:00'', end_d = ''17:00'', enabled_d = True\<rparr>,
                    ''wednesday'' \<mapsto> \<lparr>start_d = ''09:00'', end_d = ''17:00'', enabled_d = True\<rparr>,
                    ''thursday'' \<mapsto> \<lparr>start_d = ''09:00'', end_d = ''17:00'', enabled_d = True\<rparr>,
                    ''friday'' \<mapsto> \<lparr>start_d = ''09:00'', end_d = ''17:00'', enabled_d = True\<rparr>,
                    ''saturday'' \<mapsto> \<lparr>start_d = ''10:00'', end_d = ''14:00'', enabled_d = False\<rparr>,
                    ''sunday'' \<mapsto> \<lparr>start_d = ''10:00'', end_d = ''14:00'', enabled_d = False\<rparr>]\<rparr>,
      autoReply = \<lparr>
        newCustomerMessage =
          [CHR 0xC3, CHR 0xB0, CHR 0xC5, CHR 0xB8, CHR 0xE2, CHR 0x80, CHR 0x98, CHR 0xE2, CHR 0x80, CHR 0xB9]
          @ '' Hello! Thank you for contacting us. We'' @ [CHR 0x27]
          @ ''re here to help you. Someone from our team will get back to you shortly.'',
        returningCustomerMessage =
          ''Hello again! Thanks for reaching out. How can we assist you today?'',
        afterHoursMessage =
          [CHR 0xC3, CHR 0xB0, CHR 0xC5, CHR 0xB8, CHR 0xC5, CHR 0x92, CHR 0xE2, CHR 0x84, CHR 0xA2]
          @ '' Thanks for your message! We'' @ [CHR 0x27]
          @ ''re currently outside business hours. We'' @ [CHR 0x27]
          @ ''ll respond as soon as possible during our next business day.'',
        fallbackMessage =
          ''Thank you for your message. We'' @ [CHR 0x27]
          @ ''ve received it and will respond soon.''\<rparr>,
      webhookUrl = ''http://localhost:3000'' @ ''/api/webhook/whatsapp'',
      verifyToken = ''default_verify_token'',
      accessToken = '''',
      phoneNumberId = '''',
      createdAt_s = Date t,
      updatedAt_s = Date t\<rparr>"

definition SettingsDatabase_get :: "int \<Rightarrow> state \<Rightarrow> BotSettings option \<times> state" where
  \<comment> \<open>initialises the settings on first use; \<open>window\<close> is undefined on the server\<close>
  "SettingsDatabase_get t s =
     (case botSettings s of
        None \<Rightarrow> (Some (defaultSettings t), s\<lparr>botSettings := Some (defaultSettings t)\<rparr>)
      | Some b \<Rightarrow> (Some b, s))"

section \<open>whatsapp.ts\<close>

definition new_WhatsAppAPI :: "string \<Rightarrow> string \<Rightarrow> WhatsAppAPI" where
  "new_WhatsAppAPI tok pid = \<lparr>api_accessToken = tok, api_phoneNumberId = pid\<rparr>"

definition sendMessage :: "WhatsAppAPI \<Rightarrow> env \<Rightarrow> SendMessageResponse option" where
  "sendMessage api e =
     (if api_accessToken api = '''' \<or> api_phoneNumberId api = '''' then None else sendOutcome e)"




definition isBusinessHour :: "env \<Rightarrow> string \<Rightarrow> (string \<rightharpoonup> day_schedule) \<Rightarrow> bool" where
  \<comment> \<open>an exception of either locale call is caught and answered \<open>true\<close>\<close>
  "isBusinessHour e tz sched =
     (case localeWeekday e tz of
        None \<Rightarrow> True
      | Some wd \<Rightarrow>
          (let dayOfWeek = toLowerCase wd
           in case localeTime e tz of
                None \<Rightarrow> True
              | Some currentTime \<Rightarrow>
                  (case sched dayOfWeek of
                     None \<Rightarrow> False
                   | Some daySchedule \<Rightarrow>
                       if \<not> enabled_d daySchedule then False
                       else str_ge currentTime (start_d daySchedule)
                            \<and> str_le currentTime (end_d daySchedule))))"

section \<open>message-processor.ts\<close>

subsection \<open>RateLimiter\<close>


subsection \<open>MessageValidator\<close>









subsection \<open>MessageProcessor\<close>

definition pictographPatterns :: "string list" where
  \<comment> \<open>the four alternatives of the second skip pattern, byte for byte as the source file has them\<close>
  "pictographPatterns =
     [[CHR 0xC3, CHR 0xB0, CHR 0xC5, CHR 0xB8, CHR 0xE2, CHR 0x80, CHR 0x98],
      [CHR 0xC3, CHR 0xB0, CHR 0xC5, CHR 0xB8, CHR 0xE2, CHR 0x80, CHR 0x98, CHR 0xC5, CHR 0x92],
      [CHR 0xC3, CHR 0xA2, CHR 0xC5, CHR 0x93, CHR 0xE2, CHR 0x80, CHR 0xA6],
      [CHR 0xC3, CHR 0xB0, CHR 0xC5, CHR 0xB8, CHR 0xE2, CHR 0x84, CHR 0xA2]]"

definition shouldSendAutoReply :: "string \<Rightarrow> bool" where
  "shouldSendAutoReply messageContent =
     (let t = trim messageContent
      in \<not> (toLowerCase t \<in> set [''ok'', ''okay'', ''thanks'', ''thank you'', ''got it'']
             \<or> t \<in> set pictographPatterns
             \<or> toLowerCase t \<in> set [''delivered'', ''read'']))"


definition replyMessage :: "env \<Rightarrow> BotSettings \<Rightarrow> customer \<Rightarrow> string" where
  \<comment> \<open>the choice of the text in \<open>processAutoReply\<close>\<close>
  "replyMessage e settings c =
     (if enabled (businessHours settings) then
        (if \<not> isBusinessHour e (timezone (businessHours settings)) (schedule (businessHours settings))
         then afterHoursMessage (autoReply settings)
         else if isNew c then newCustomerMessage (autoReply settings)
         else returningCustomerMessage (autoReply settings))
      else (if isNew c then newCustomerMessage (autoReply settings)
            else returningCustomerMessage (autoReply settings)))"

definition processAutoReply :: "customer \<Rightarrow> string \<Rightarrow> env \<Rightarrow> state \<Rightarrow> bool \<times> state" where
  \<comment> \<open>reading \<open>response.messages[0].id\<close> of an empty list throws; the \<open>catch\<close> answers
      \<open>false\<close>\<close>
  "processAutoReply c messageContent e s =
     (case SettingsDatabase_get (now e) s of
        (None, s1) \<Rightarrow> (False, s1)
      | (Some settings, s1) \<Rightarrow>
          if \<not> isActive settings then (False, s1)
          else if \<not> shouldSendAutoReply messageContent then (False, s1)
          else
            (let reply = replyMessage e settings c;
                 s2 = s1\<lparr>whatsappApi := new_WhatsAppAPI (accessToken settings) (phoneNumberId settings)\<rparr>
             in case sendMessage (whatsappApi s2) e of
                  None \<Rightarrow> (False, s2)
                | Some response \<Rightarrow>
                    (case messages_r response of
                       [] \<Rightarrow> (False, s2)
                     | rid # _ \<Rightarrow>
                         (True, snd (MessageDatabase_create
                            \<lparr>d_customerId = id_c c, d_messageId = rid, d_direction = Outgoing,
                             d_type = ''text'', d_content = reply, d_status_m = Sent,
                             d_isAutoReply = True, d_timestamp = Date (now e),
                             d_metadata_m = \<lparr>whatsappTimestamp = None, context_m = None,
                                               failureReason = None\<rparr>\<rparr>
                            (outgoingNewId e) (now e) s2)))))"





definition validStatus :: "string \<Rightarrow> message_status option" where
  \<comment> \<open>membership in \<open>validStatuses\<close>, with the status the name stands for\<close>
  "validStatus st =
     (if st = ''sent'' then Some Sent
      else if st = ''delivered'' then Some Delivered
      else if st = ''read'' then Some Read
      else if st = ''failed'' then Some Failed
      else None)"

definition processStatusUpdate :: "string \<Rightarrow> string \<Rightarrow> int \<Rightarrow> state \<Rightarrow> state" where
  "processStatusUpdate mid st t s =
     (let messageStatus = (case validStatus st of Some v \<Rightarrow> v | None \<Rightarrow> Sent)
      in snd (updateStatus mid messageStatus t s))"

section \<open>Derived notions\<close>

text \<open>The settings a call works with: the stored ones, or the defaults on first use.\<close>

definition currentSettings :: "int \<Rightarrow> state \<Rightarrow> BotSettings" where
  "currentSettings t s = (case botSettings s of None \<Rightarrow> defaultSettings t | Some b \<Rightarrow> b)"

text \<open>
  The conditions under which \<open>processAutoReply\<close> sends: the tests it makes, in its order.
  That they are exactly its conditions is lemma \<open>processAutoReply_fst\<close>.
\<close>

definition dispatches :: "string \<Rightarrow> env \<Rightarrow> state \<Rightarrow> bool" where
  "dispatches body e s \<longleftrightarrow>
     isActive (currentSettings (now e) s) \<and> shouldSendAutoReply body
     \<and> accessToken (currentSettings (now e) s) \<noteq> ''''
     \<and> phoneNumberId (currentSettings (now e) s) \<noteq> ''''
     \<and> (case sendOutcome e of None \<Rightarrow> False | Some r \<Rightarrow> messages_r r \<noteq> [])"



text \<open>The record \<open>processAutoReply\<close> stores for the reply it sent.\<close>

definition autoReplyRecord :: "customer \<Rightarrow> env \<Rightarrow> state \<Rightarrow> message" where
  "autoReplyRecord c e s =
     \<lparr>id_m = outgoingNewId e, customerId = id_c c,
      messageId = hd (messages_r (the (sendOutcome e))), direction = Outgoing,
      type_m = ''text'', content = replyMessage e (currentSettings (now e) s) c,
      status_m = Sent, isAutoReply = True, timestamp = Date (now e),
      metadata_m = \<lparr>whatsappTimestamp = None, context_m = None, failureReason = None\<rparr>,
      createdAt_m = Date (now e), updatedAt_m = Date (now e)\<rparr>"



section \<open>Runs\<close>






section \<open>The order of statuses in the specification\<close>

text \<open>
  The specification (section 3) orders the statuses: pending, sent, delivered, read, with
  failed as the other end state. The program has no such order; this rank only serves to
  say what moving backward means.
\<close>

fun spec_status_rank :: "message_status \<Rightarrow> nat" where
  "spec_status_rank Pending = 0"
| "spec_status_rank Sent = 1"
| "spec_status_rank Delivered = 2"
| "spec_status_rank Read = 3"
| "spec_status_rank Failed = 3"

section \<open>Example data\<close>

definition example_customer :: customer where
  "example_customer =
     \<lparr>id_c = ''c1'', phoneNumber = ''15551234567'', name = ''Ada'', isNew = False,
      status_c = Active, lastMessageAt = Date 0, firstMessageAt = Date 0, messageCount = 3,
      metadata_c = \<lparr>profileName = Some ''Ada'', language = None, timezone_c = None, tags = None\<rparr>,
      createdAt_c = Date 0, updatedAt_c = Date 0\<rparr>"

definition example_message :: "message_status \<Rightarrow> message" where
  "example_message st =
     \<lparr>id_m = ''m1'', customerId = ''c1'', messageId = ''wamid.X'', direction = Outgoing,
      type_m = ''text'', content = ''Hello again!'', status_m = st, isAutoReply = True,
      timestamp = Date 0,
      metadata_m = \<lparr>whatsappTimestamp = None, context_m = None, failureReason = None\<rparr>,
      createdAt_m = Date 0, updatedAt_m = Date 0\<rparr>"

definition example_settings :: BotSettings where
  "example_settings = (defaultSettings 0)\<lparr>accessToken := ''token'', phoneNumberId := ''1001''\<rparr>"

definition hours_settings :: BotSettings where
  "hours_settings = example_settings\<lparr>businessHours := (businessHours example_settings)\<lparr>enabled := True\<rparr>\<rparr>"

definition example_state :: "message_status \<Rightarrow> state" where
  "example_state st =
     \<lparr>customers = [example_customer], messages = [example_message st],
      botSettings = Some example_settings, whatsappApi = new_WhatsAppAPI '''' ''''\<rparr>"


definition example_env :: "int \<Rightarrow> string \<Rightarrow> env" where
  "example_env t suffix =
     \<lparr>now = t, customerNewId = ''c'' @ suffix, incomingNewId = ''i'' @ suffix,
      outgoingNewId = ''o'' @ suffix,
      localeWeekday = (\<lambda>tz. if tz = ''America/New_York'' then Some ''Monday'' else None),
      localeTime = (\<lambda>tz. if tz = ''America/New_York'' then Some ''10:30'' else None),
      sendOutcome = Some \<lparr>contacts_r = [], messages_r = [''wamid.R'' @ suffix]\<rparr>,
      readOutcome = True\<rparr>"

definition sunday_env :: env where
  "sunday_env = (example_env 7 ''7'')\<lparr>localeWeekday := (\<lambda>tz. Some ''Sunday'')\<rparr>"




section \<open>Auxiliary facts\<close>

lemma findIndex_Some:
  "findIndex P xs = Some k \<Longrightarrow> k < length xs \<and> P (xs ! k) \<and> (\<forall>j<k. \<not> P (xs ! j))"
proof (induction xs arbitrary: k)
  case Nil
  then show ?case by simp
next
  case (Cons x xs)
  show ?case
  proof (cases "P x")
    case True
    with Cons.prems show ?thesis by simp
  next
    case False
    with Cons.prems obtain k' where k': "findIndex P xs = Some k'" "k = Suc k'"
      by auto
    from Cons.IH[OF k'(1)] False k'(2) show ?thesis
      by (auto simp: less_Suc_eq_0_disj)
  qed
qed

lemma findIndex_None: "findIndex P xs = None \<longleftrightarrow> (\<forall>x\<in>set xs. \<not> P x)"
  by (induction xs) auto



lemma str_lt_lexord:
  "str_lt a b \<longleftrightarrow> (map of_char a, map of_char b) \<in> lexord {(x::nat, y). x < y}"
  by (induction a b rule: str_lt.induct) auto

lemma str_lt_irrefl: "\<not> str_lt a a"
  by (induction a) auto

lemma str_lt_total: "str_lt a b \<or> a = b \<or> str_lt b a"
proof (induction a b rule: str_lt.induct)
  case (4 x xs y ys)
  have "(of_char x :: nat) < of_char y \<or> x = y \<or> (of_char y :: nat) < of_char x"
    by (metis linorder_less_linear of_char_eq_iff)
  with 4 show ?case by auto
qed simp_all

lemma str_lt_asym: "str_lt a b \<Longrightarrow> \<not> str_lt b a"
  by (induction a b rule: str_lt.induct) auto

lemma str_le_iff: "str_le a b \<longleftrightarrow> a = b \<or> str_lt a b"
  unfolding str_le_def using str_lt_total[of a b] str_lt_asym[of a b] str_lt_irrefl[of a]
  by blast

lemma SettingsDatabase_get_eq:
  "SettingsDatabase_get t s = (Some (currentSettings t s), s\<lparr>botSettings := Some (currentSettings t s)\<rparr>)"
  by (cases s) (auto simp: SettingsDatabase_get_def currentSettings_def split: option.splits)

lemma processAutoReply_fst:
  "fst (processAutoReply c body e s) = dispatches body e s"
  by (auto simp: processAutoReply_def SettingsDatabase_get_eq dispatches_def sendMessage_def
        new_WhatsAppAPI_def Let_def split: option.splits list.splits)

lemma processAutoReply_messages:
  "messages (snd (processAutoReply c body e s)) =
     messages s @ (if dispatches body e s then [autoReplyRecord c e s] else [])"
  by (auto simp: processAutoReply_def SettingsDatabase_get_eq dispatches_def sendMessage_def
        new_WhatsAppAPI_def MessageDatabase_create_def autoReplyRecord_def Let_def
        split: option.splits list.splits)



lemma currentSettings_Some [simp]:
  "botSettings s = Some b \<Longrightarrow> currentSettings t s = b"
  by (simp add: currentSettings_def)

lemma shouldSendAutoReply_Hi: "shouldSendAutoReply ''Hi''"
  by code_simp

lemma toLowerCase_Sunday: "toLowerCase ''Sunday'' = ''sunday''"
  by code_simp


















































section \<open>Appending to the ledger\<close>




section \<open>Status updates\<close>

text \<open>
  Claim C2, as amended. Applying a status update by channel message id sets the status of
  the first stored message with that channel id to the status of the event, whatever status
  the message had before, and changes no other message and no customer. So an event whose
  status the message already has leaves the status as it is, and an event whose channel id
  matches no stored message changes nothing and raises no error. \<open>processStatusUpdate\<close>
  does this for each of the four valid status names.
\<close>

theorem status_update_overwrites:
  "(findIndex (\<lambda>m. messageId m = mid) (messages s) = None \<longrightarrow>
      updateStatus mid st t s = (None, s))
   \<and> (\<forall>k. findIndex (\<lambda>m. messageId m = mid) (messages s) = Some k \<longrightarrow>
         length (messages (snd (updateStatus mid st t s))) = length (messages s)
         \<and> status_m (messages (snd (updateStatus mid st t s)) ! k) = st
         \<and> (status_m (messages s ! k) = st \<longrightarrow>
               status_m (messages (snd (updateStatus mid st t s)) ! k) = status_m (messages s ! k))
         \<and> (\<forall>j. j < length (messages s) \<and> j \<noteq> k \<longrightarrow>
               messages (snd (updateStatus mid st t s)) ! j = messages s ! j)
         \<and> customers (snd (updateStatus mid st t s)) = customers s)
   \<and> (\<forall>v. validStatus name' = Some v \<longrightarrow>
         processStatusUpdate mid name' t s = snd (updateStatus mid v t s))"
proof -
  have a: "updateStatus mid st t s = (None, s)"
    if "findIndex (\<lambda>m. messageId m = mid) (messages s) = None"
    using that by (simp add: updateStatus_def)
  have b: "length (messages (snd (updateStatus mid st t s))) = length (messages s)
         \<and> status_m (messages (snd (updateStatus mid st t s)) ! k) = st
         \<and> (status_m (messages s ! k) = st \<longrightarrow>
               status_m (messages (snd (updateStatus mid st t s)) ! k) = status_m (messages s ! k))
         \<and> (\<forall>j. j < length (messages s) \<and> j \<noteq> k \<longrightarrow>
               messages (snd (updateStatus mid st t s)) ! j = messages s ! j)
         \<and> customers (snd (updateStatus mid st t s)) = customers s"
    if "findIndex (\<lambda>m. messageId m = mid) (messages s) = Some k" for k
    using that findIndex_Some[OF that] by (simp add: updateStatus_def Let_def)
  have c: "processStatusUpdate mid name' t s = snd (updateStatus mid v t s)"
    if "validStatus name' = Some v" for v
    using that by (simp add: processStatusUpdate_def)
  from a b c show ?thesis by blast
qed

theorem status_update_overwrites_witness:
  "findIndex (\<lambda>m. messageId m = ''wamid.X'') (messages (example_state Sent)) = Some 0
   \<and> validStatus ''read'' = Some Read
   \<and> status_m (messages (example_state Sent) ! 0) = Sent
   \<and> status_m (messages (processStatusUpdate ''wamid.X'' ''read'' 9 (example_state Sent)) ! 0) = Read
   \<and> findIndex (\<lambda>m. messageId m = ''wamid.none'') (messages (example_state Sent)) = None
   \<and> processStatusUpdate ''wamid.none'' ''read'' 9 (example_state Sent) = example_state Sent"
proof -
  have k: "findIndex (\<lambda>m. messageId m = ''wamid.X'') (messages (example_state Sent)) = Some 0"
    and n: "findIndex (\<lambda>m. messageId m = ''wamid.none'') (messages (example_state Sent)) = None"
    and r: "status_m (messages (example_state Sent) ! 0) = Sent"
    by (simp_all add: example_state_def example_message_def)
  have v: "validStatus ''read'' = Some Read"
    by (simp add: validStatus_def)
  from status_update_overwrites[of "''wamid.X''" "example_state Sent" Read 9 "''read''"]
    status_update_overwrites[of "''wamid.none''" "example_state Sent" Read 9 "''read''"]
    k n r v
  show ?thesis by simp
qed

text \<open>
  The claim as stated fails: nothing compares the new status with the old one. A message
  that is \<open>read\<close> is moved back to \<open>sent\<close> by a later \<open>sent\<close> event.
\<close>

theorem status_regression_counterexample:
  "status_m (messages (example_state Read) ! 0) = Read
   \<and> status_m (messages (processStatusUpdate ''wamid.X'' ''sent'' 9 (example_state Read)) ! 0) = Sent
   \<and> spec_status_rank Sent < spec_status_rank Read"
  by (simp add: processStatusUpdate_def validStatus_def updateStatus_def example_state_def
        example_message_def Let_def)

section \<open>Rate limit\<close>




section \<open>Repeated content\<close>




section \<open>Choice of the reply\<close>

text \<open>
  Claim C5. Whenever an auto-reply is due, one text is chosen, in this order: the
  after-hours text when the business-hours check is enabled and \<open>isBusinessHour\<close> answers
  false, whatever \<open>isNew\<close> is; otherwise the new-customer text when \<open>isNew\<close> holds;
  otherwise the returning-customer text. The fallback text plays no part in the choice.
  When \<open>processAutoReply\<close> sends, it stores one outgoing message, whose content is the
  chosen text.
\<close>

theorem template_precedence:
  "replyMessage e b c =
     (if enabled (businessHours b)
         \<and> \<not> isBusinessHour e (timezone (businessHours b)) (schedule (businessHours b))
      then afterHoursMessage (autoReply b)
      else if isNew c then newCustomerMessage (autoReply b)
      else returningCustomerMessage (autoReply b))
   \<and> replyMessage e (b\<lparr>autoReply := (autoReply b)\<lparr>fallbackMessage := x\<rparr>\<rparr>) c = replyMessage e b c
   \<and> (fst (processAutoReply c body e s) \<longrightarrow>
        messages (snd (processAutoReply c body e s)) = messages s @ [autoReplyRecord c e s]
        \<and> content (autoReplyRecord c e s) = replyMessage e (currentSettings (now e) s) c)"
proof -
  have a: "replyMessage e b c =
     (if enabled (businessHours b)
         \<and> \<not> isBusinessHour e (timezone (businessHours b)) (schedule (businessHours b))
      then afterHoursMessage (autoReply b)
      else if isNew c then newCustomerMessage (autoReply b)
      else returningCustomerMessage (autoReply b))"
    by (simp add: replyMessage_def)
  have b: "replyMessage e (b\<lparr>autoReply := (autoReply b)\<lparr>fallbackMessage := x\<rparr>\<rparr>) c = replyMessage e b c"
    by (simp add: replyMessage_def)
  have c: "messages (snd (processAutoReply c body e s)) = messages s @ [autoReplyRecord c e s]"
    if "fst (processAutoReply c body e s)"
    using that by (simp add: processAutoReply_fst processAutoReply_messages)
  have d: "content (autoReplyRecord c e s) = replyMessage e (currentSettings (now e) s) c"
    by (simp add: autoReplyRecord_def)
  from a b c d show ?thesis by blast
qed

theorem template_precedence_witness:
  "isNew (example_customer\<lparr>isNew := True\<rparr>)
   \<and> enabled (businessHours hours_settings)
   \<and> \<not> isBusinessHour sunday_env (timezone (businessHours hours_settings))
          (schedule (businessHours hours_settings))
   \<and> replyMessage sunday_env hours_settings (example_customer\<lparr>isNew := True\<rparr>)
       = afterHoursMessage (autoReply hours_settings)
   \<and> fst (processAutoReply example_customer ''Hi'' (example_env 5 ''1'') (example_state Sent))
   \<and> content (last (messages (snd (processAutoReply example_customer ''Hi'' (example_env 5 ''1'')
         (example_state Sent)))))
       = returningCustomerMessage (autoReply example_settings)"
proof -
  have closed: "\<not> isBusinessHour sunday_env (timezone (businessHours hours_settings))
          (schedule (businessHours hours_settings))"
    by (simp add: isBusinessHour_def sunday_env_def example_env_def hours_settings_def
          example_settings_def defaultSettings_def toLowerCase_Sunday)
  have en: "enabled (businessHours hours_settings)"
    by (simp add: hours_settings_def)
  have d: "dispatches ''Hi'' (example_env 5 ''1'') (example_state Sent)"
    by (simp add: dispatches_def shouldSendAutoReply_Hi example_env_def example_state_def
          example_settings_def defaultSettings_def)
  have r: "replyMessage (example_env 5 ''1'') (currentSettings (now (example_env 5 ''1'')) (example_state Sent)) example_customer
             = returningCustomerMessage (autoReply example_settings)"
    by (simp add: replyMessage_def example_state_def example_settings_def defaultSettings_def
          example_customer_def)
  from template_precedence[of sunday_env hours_settings "example_customer\<lparr>isNew := True\<rparr>"]
    template_precedence[of "example_env 5 ''1''" example_settings example_customer _
       "''Hi''" "example_state Sent"]
    closed en d r
  show ?thesis by (simp add: processAutoReply_fst)
qed

section \<open>Business hours\<close>

text \<open>
  Claim C6. For every time zone, weekly schedule and current time: when the time zone
  cannot be resolved (either locale call throws) \<open>isBusinessHour\<close> answers true; otherwise
  it answers false when the schedule has no entry for the weekday or the entry is disabled,
  and for an enabled day it answers true exactly when \<open>start \<le> localTime \<le> end\<close>,
  where \<open>\<le>\<close> is equality or the lexicographic order of the character codes, so both
  end points are included.
\<close>

theorem business_hours_evaluator:
  "((localeWeekday e tz = None \<or> localeTime e tz = None) \<longrightarrow> isBusinessHour e tz sched)
   \<and> (\<forall>wd t. localeWeekday e tz = Some wd \<and> localeTime e tz = Some t \<longrightarrow>
         isBusinessHour e tz sched =
           (case sched (toLowerCase wd) of
              None \<Rightarrow> False
            | Some d \<Rightarrow> enabled_d d \<and> str_le (start_d d) t \<and> str_le t (end_d d)))
   \<and> (\<forall>a b. str_le a b \<longleftrightarrow>
         a = b \<or> (map of_char a, map of_char b) \<in> lexord {(x::nat, y). x < y})"
proof -
  have a: "isBusinessHour e tz sched" if "localeWeekday e tz = None \<or> localeTime e tz = None"
    using that by (auto simp: isBusinessHour_def Let_def split: option.splits)
  have b: "isBusinessHour e tz sched =
             (case sched (toLowerCase wd) of
                None \<Rightarrow> False
              | Some d \<Rightarrow> enabled_d d \<and> str_le (start_d d) t \<and> str_le t (end_d d))"
    if "localeWeekday e tz = Some wd \<and> localeTime e tz = Some t" for wd t
    using that by (auto simp: isBusinessHour_def Let_def str_le_def str_ge_def split: option.splits)
  have c: "str_le a b \<longleftrightarrow> a = b \<or> (map of_char a, map of_char b) \<in> lexord {(x::nat, y). x < y}"
    for a b
    by (simp add: str_le_iff str_lt_lexord)
  from a b c show ?thesis by blast
qed

theorem business_hours_evaluator_witness:
  "localeWeekday (example_env 0 ''1'') ''America/New_York'' = Some ''Monday''
   \<and> localeTime (example_env 0 ''1'') ''America/New_York'' = Some ''10:30''
   \<and> isBusinessHour (example_env 0 ''1'') ''America/New_York''
        (schedule (businessHours (defaultSettings 0)))
   \<and> localeWeekday (example_env 0 ''1'') ''Mars/Olympus'' = None
   \<and> isBusinessHour (example_env 0 ''1'') ''Mars/Olympus''
        (schedule (businessHours (defaultSettings 0)))"
proof -
  have w: "localeWeekday (example_env 0 ''1'') ''America/New_York'' = Some ''Monday''"
    and t: "localeTime (example_env 0 ''1'') ''America/New_York'' = Some ''10:30''"
    and n: "localeWeekday (example_env 0 ''1'') ''Mars/Olympus'' = None"
    by (simp_all add: example_env_def)
  have l: "toLowerCase ''Monday'' = ''monday''"
    by code_simp
  have d: "schedule (businessHours (defaultSettings 0)) ''monday''
             = Some \<lparr>start_d = ''09:00'', end_d = ''17:00'', enabled_d = True\<rparr>"
    by (simp add: defaultSettings_def)
  have r: "str_le ''09:00'' ''10:30'' \<and> str_le ''10:30'' ''17:00''"
    by (simp add: str_le_def)
  from business_hours_evaluator[of "example_env 0 ''1''" "''America/New_York''"
         "schedule (businessHours (defaultSettings 0))"]
    business_hours_evaluator[of "example_env 0 ''1''" "''Mars/Olympus''"
         "schedule (businessHours (defaultSettings 0))"]
    w t n l d r
  show ?thesis by simp
qed

section \<open>Resolving the customer\<close>




section \<open>The flag \<open>isNew\<close>\<close>



section \<open>Manual messages\<close>



section \<open>Status events\<close>

text \<open>
  Claim C10. A status name outside \<open>sent\<close>, \<open>delivered\<close>, \<open>read\<close>, \<open>failed\<close> is
  coerced to \<open>sent\<close> by \<open>processStatusUpdate\<close> and applied to the stored message with that
  channel message id: the message's status is \<open>sent\<close> afterwards, whatever it was before,
  \<open>delivered\<close> and \<open>read\<close> included.
\<close>

theorem unknown_status_coerced_to_sent:
  assumes "st \<notin> {''sent'', ''delivered'', ''read'', ''failed''}"
  shows "processStatusUpdate mid st t s = snd (updateStatus mid Sent t s)
         \<and> (\<forall>k. findIndex (\<lambda>m. messageId m = mid) (messages s) = Some k \<longrightarrow>
               status_m (messages (processStatusUpdate mid st t s) ! k) = Sent)"
proof -
  from assms have v: "validStatus st = None"
    by (simp add: validStatus_def)
  have a: "processStatusUpdate mid st t s = snd (updateStatus mid Sent t s)"
    by (simp add: processStatusUpdate_def v)
  have b: "status_m (messages (snd (updateStatus mid Sent t s)) ! k) = Sent"
    if "findIndex (\<lambda>m. messageId m = mid) (messages s) = Some k" for k
    using that findIndex_Some[OF that] by (simp add: updateStatus_def Let_def)
  from a b show ?thesis by simp
qed

theorem unknown_status_coerced_to_sent_witness:
  "''bogus'' \<notin> {''sent'', ''delivered'', ''read'', ''failed''}
   \<and> findIndex (\<lambda>m. messageId m = ''wamid.X'') (messages (example_state Read)) = Some 0
   \<and> status_m (messages (example_state Read) ! 0) = Read
   \<and> status_m (messages (processStatusUpdate ''wamid.X'' ''bogus'' 9 (example_state Read)) ! 0) = Sent"
proof -
  have h: "''bogus'' \<notin> {''sent'', ''delivered'', ''read'', ''failed''}" by simp
  have k: "findIndex (\<lambda>m. messageId m = ''wamid.X'') (messages (example_state Read)) = Some 0"
    by (simp add: example_state_def example_message_def)
  have r: "status_m (messages (example_state Read) ! 0) = Read"
    by (simp add: example_state_def example_message_def)
  from unknown_status_coerced_to_sent[OF h, of "''wamid.X''" 9 "example_state Read"] h k r
  show ?thesis by blast
qed

end
